theory Spec2Isabelle
  imports Complex_Main
begin

section \<open>River-profile clustering: the resampling and clustering pipeline\<close>

text \<open>
  A shallow embedding of \<^verbatim>\<open>plot-river-clusters.py\<close>: the nearest-sample lookup
  \<^verbatim>\<open>find_nearest_idx\<close>, the slope estimator \<^verbatim>\<open>CalculateSlope\<close>, the resampler
  \<^verbatim>\<open>ResampleProfiles\<close> and the clustering driver \<^verbatim>\<open>ClusterProfiles\<close>.

  Numbers: the script is Python 2 (it uses the \<^verbatim>\<open>print\<close> statement), so \<^verbatim>\<open>/\<close> on two
  integers is floor division, modelled by \<open>div\<close> on \<open>int\<close>. Floating-point values are
  idealised as real numbers; a cell that holds NaN is \<open>None\<close>, a cell that holds a number
  \<open>x\<close> is \<open>Some x\<close>. Rounding is not modelled.
\<close>

type_synonym npfloat = "real option"

datatype error =
    ValueError string
  | NameError string
  | IndexError
  | ZeroDivisionError

subsection \<open>Nearest-sample lookup\<close>

text \<open>
  \<^verbatim>\<open>np.searchsorted(array, value, side="left")\<close> is a library call. On a sorted array it
  returns the leftmost insertion point: the first index whose element is not below
  \<open>value\<close>, or the length of the array when every element is below it.
\<close>

definition searchsorted_left :: "real list \<Rightarrow> real \<Rightarrow> int" where
  "searchsorted_left array v = int (length (takeWhile (\<lambda>x. x < v) array))"

text \<open>
  \<^verbatim>\<open>
  idx = np.searchsorted(array, value, side="left")
  if idx > 0 and (idx == len(array) or
                  math.fabs(value - array[idx-1]) < math.fabs(value - array[idx])):
      return idx-1
  else:
      return idx
  \<close>
  The two array reads are guarded by the short-circuit tests before them, so neither is
  out of range.
\<close>

definition find_nearest_idx :: "real list \<Rightarrow> real \<Rightarrow> int" where
  "find_nearest_idx array v =
     (let idx = searchsorted_left array v in
      if idx > 0 \<and> (idx = int (length array) \<or>
           \<bar>v - array ! nat (idx - 1)\<bar> < \<bar>v - array ! nat idx\<bar>)
      then idx - 1 else idx)"

subsection \<open>Tables\<close>

text \<open>
  A dataframe is the list of its rows, in row order. The fields are the columns the
  code reads and writes; the tables are taken to have them. \<open>id_col\<close> is the column
  \<^verbatim>\<open>id\<close>. A \<open>slope\<close> or \<open>cluster_id\<close> cell that has not been written reads as missing.
\<close>

record row =
  id_col :: int
  distance_from_source :: real
  elevation :: real
  drainage_areas :: real
  slope :: npfloat
  cluster_id :: "int option"

type_synonym dataframe = "row list"

text \<open>\<^verbatim>\<open>Series.unique()\<close>: the distinct values in order of first appearance.\<close>

definition unique :: "'a list \<Rightarrow> 'a list" where
  "unique xs = rev (remdups (rev xs))"

text \<open>
  \<^verbatim>\<open>a[start:stop]\<close>: a negative bound counts from the end, and both bounds are clamped
  to the index range; the slice is empty when the bounds cross.
\<close>

definition py_slice :: "int \<Rightarrow> int \<Rightarrow> 'a list \<Rightarrow> 'a list" where
  "py_slice start stop xs =
     (let n = int (length xs);
          lo = (if start < 0 then max (start + n) 0 else min start n);
          hi = (if stop < 0 then max (stop + n) 0 else min stop n)
      in take (nat (hi - lo)) (drop (nat lo) xs))"

subsection \<open>Slope estimation\<close>

text \<open>
  \<^verbatim>\<open>stats.linregress(x, y)\<close> is a library call. It raises on empty input. Otherwise
  its slope is the covariance of \<open>x\<close> and \<open>y\<close> over the variance of \<open>x\<close>, both taken about
  the means and divided by the number of points. When the variance is zero the
  covariance is zero too, and the quotient 0/0 is NaN.
\<close>

definition mean :: "real list \<Rightarrow> real" where
  "mean xs = sum_list xs / real (length xs)"

definition linregress_slope :: "real list \<Rightarrow> real list \<Rightarrow> error + npfloat" where
  "linregress_slope x y =
     (if x = [] \<or> y = [] then Inl (ValueError ''Inputs must not be empty.'')
      else (let xmean = mean x;
                ymean = mean y;
                ssxm = mean (map (\<lambda>a. (a - xmean) * (a - xmean)) x);
                ssxym = mean (map (\<lambda>(a, b). (a - xmean) * (b - ymean)) (zip x y))
            in Inr (if ssxm = 0 then None else Some (ssxym / ssxm))))"

text \<open>
  The body of the inner loop of \<^verbatim>\<open>CalculateSlope\<close>, for one node:
  \<^verbatim>\<open>
  slicer = (slope_window_size - 1)/2
  this_slice = pts_array[index-slicer:index+slicer+1]
  if len(this_slice) == slope_window_size:
      x = this_slice[:,0]
      y = this_slice[:,1]
      slope, intercept, r_value, p_value, std_err = stats.linregress(x, y)
      slopes[index] = abs(slope)
  else:
      slopes[index] = np.nan
  \<close>
  An exception of the regression leaves the loop.
\<close>

definition window_slope :: "int \<Rightarrow> (real \<times> real) list \<Rightarrow> int \<Rightarrow> error + npfloat" where
  "window_slope slope_window_size pts_array index =
     (let slicer = (slope_window_size - 1) div 2;
          this_slice = py_slice (index - slicer) (index + slicer + 1) pts_array
      in if int (length this_slice) = slope_window_size
         then (case linregress_slope (map fst this_slice) (map snd this_slice) of
                 Inl e \<Rightarrow> Inl e
               | Inr gradient \<Rightarrow> Inr (map_option abs gradient))
         else Inr None)"

text \<open>
  The inner loop, \<^verbatim>\<open>for index, x in enumerate(pts_array)\<close>, filling \<^verbatim>\<open>slopes\<close> from
  the first node on.
\<close>

fun slopes_loop ::
  "int \<Rightarrow> (real \<times> real) list \<Rightarrow> nat list \<Rightarrow> npfloat list \<Rightarrow> error + npfloat list" where
  "slopes_loop slope_window_size pts_array [] slopes = Inr slopes"
| "slopes_loop slope_window_size pts_array (index # rest) slopes =
     (case window_slope slope_window_size pts_array (int index) of
        Inl e \<Rightarrow> Inl e
      | Inr v \<Rightarrow> slopes_loop slope_window_size pts_array rest (slopes @ [v]))"

definition profile_slopes :: "int \<Rightarrow> (real \<times> real) list \<Rightarrow> error + npfloat list" where
  "profile_slopes slope_window_size pts_array =
     slopes_loop slope_window_size pts_array [0..<length pts_array] []"

text \<open>
  \<^verbatim>\<open>df.loc[df.id==id, 'slope'] = slopes\<close>: the rows of the source take the values in
  row order; the other rows are left as they are. The value array has one entry per
  row of the source by construction.
\<close>

fun loc_set_slope :: "int \<Rightarrow> npfloat list \<Rightarrow> dataframe \<Rightarrow> dataframe" where
  "loc_set_slope a vs [] = []"
| "loc_set_slope a vs (r # df) =
     (if id_col r = a
      then (case vs of
              [] \<Rightarrow> r # loc_set_slope a [] df
            | v # vs' \<Rightarrow> r\<lparr>slope := v\<rparr> # loc_set_slope a vs' df)
      else r # loc_set_slope a vs df)"

text \<open>
  \<^verbatim>\<open>
  dist = df['distance_from_source'][df['id'] == id]
  elev = df['elevation'][df['id'] == id]
  pts_array = np.column_stack((dist,elev))
  \<close>
\<close>

definition profile_pts :: "int \<Rightarrow> dataframe \<Rightarrow> (real \<times> real) list" where
  "profile_pts a df =
     (let dist = map distance_from_source (filter (\<lambda>r. id_col r = a) df);
          elev = map elevation (filter (\<lambda>r. id_col r = a) df)
      in zip dist elev)"

text \<open>
  One pass of the outer loop of \<^verbatim>\<open>CalculateSlope\<close>, for the source \<open>a\<close>: the slopes
  of the profile, then the write into the table.
\<close>

definition slope_step :: "int \<Rightarrow> int \<Rightarrow> dataframe \<Rightarrow> error + dataframe" where
  "slope_step slope_window_size a df =
     (case profile_slopes slope_window_size (profile_pts a df) of
        Inl e \<Rightarrow> Inl e
      | Inr slopes \<Rightarrow> Inr (loc_set_slope a slopes df))"

text \<open>
  The table that the loop over \<^verbatim>\<open>df['id'].unique()\<close> leaves behind, or the exception
  that ends it.
\<close>

fun slope_table_loop :: "int \<Rightarrow> int list \<Rightarrow> dataframe \<Rightarrow> error + dataframe" where
  "slope_table_loop slope_window_size [] df = Inr df"
| "slope_table_loop slope_window_size (a # ids) df =
     (case slope_step slope_window_size a df of
        Inl e \<Rightarrow> Inl e
      | Inr df' \<Rightarrow> slope_table_loop slope_window_size ids df')"

definition CalculateSlope_rows :: "int \<Rightarrow> dataframe \<Rightarrow> error + dataframe" where
  "CalculateSlope_rows slope_window_size df =
     slope_table_loop slope_window_size (unique (map id_col df)) df"




text \<open>
  The direct formula for the gradient of the least-squares line through a list of
  points, \<open>(n \<Sum>xy - \<Sum>x \<Sum>y) / (n \<Sum>x\<^sup>2 - (\<Sum>x)\<^sup>2)\<close>; it is undefined when all abscissae
  coincide. The slope estimator is compared with it.
\<close>

definition ols_gradient :: "(real \<times> real) list \<Rightarrow> npfloat" where
  "ols_gradient pts =
     (let n = real (length pts);
          sx = (\<Sum>(x, y)\<leftarrow>pts. x);
          sy = (\<Sum>(x, y)\<leftarrow>pts. y);
          sxy = (\<Sum>(x, y)\<leftarrow>pts. x * y);
          sxx = (\<Sum>(x, y)\<leftarrow>pts. x * x);
          den = n * sxx - sx * sx
      in if den = 0 then None else Some ((n * sxy - sx * sy) / den))"

text \<open>
  The sum of squared residuals of the line \<open>y = m x + c\<close> over a list of points, the
  quantity a least-squares fit minimises.
\<close>

definition sse :: "(real \<times> real) list \<Rightarrow> real \<Rightarrow> real \<Rightarrow> real" where
  "sse pts m c = (\<Sum>(x, y)\<leftarrow>pts. (y - (m * x + c)) * (y - (m * x + c)))"

subsection \<open>Resampling\<close>

text \<open>
  A profile as \<^verbatim>\<open>ResampleProfiles\<close> stores it: the triple
  \<^verbatim>\<open>(distances, slopes, drainage_areas)\<close>.
\<close>

type_synonym profile = "real list \<times> npfloat list \<times> real list"

text \<open>
  The body of the first loop, for one source id:
  \<^verbatim>\<open>
  this_df = df[df['id'] == source]
  this_df = this_df[np.isnan(this_df['slope']) == False]  # remove nans
  slopes = this_df['slope'].as_matrix()
  distances = this_df['distance_from_source'].as_matrix()
  drainage_areas = this_df['drainage_areas']
  if (len(slopes) >= min_length):
      profiles.append((distances, slopes, drainage_areas))
      thinned_df = thinned_df.append(this_df)
      final_sources.append(source)
  \<close>
\<close>

definition select_step ::
  "dataframe \<Rightarrow> real \<Rightarrow> int \<Rightarrow> profile list \<times> dataframe \<times> int list
     \<Rightarrow> profile list \<times> dataframe \<times> int list" where
  "select_step df min_length source = (\<lambda>(profiles, thinned_df, final_sources).
     (let this_df = filter (\<lambda>r. id_col r = source) df;
          this_df = filter (\<lambda>r. slope r \<noteq> None) this_df;
          slopes = map slope this_df;
          distances = map distance_from_source this_df;
          areas = map drainage_areas this_df
      in if min_length \<le> real (length slopes)
         then (profiles @ [(distances, slopes, areas)], thinned_df @ this_df,
               final_sources @ [source])
         else (profiles, thinned_df, final_sources)))"

text \<open>
  The first half of \<^verbatim>\<open>ResampleProfiles\<close>: the threshold
  \<^verbatim>\<open>min_length = profile_len/(math.sqrt(2))\<close> and the loop over
  \<^verbatim>\<open>df['id'].unique()\<close>, starting from three empty accumulators.
\<close>

definition ResampleProfiles_select ::
  "dataframe \<Rightarrow> int \<Rightarrow> profile list \<times> dataframe \<times> int list" where
  "ResampleProfiles_select df profile_len =
     (let min_length = real_of_int profile_len / sqrt 2;
          source_ids = unique (map id_col df)
      in fold (select_step df min_length) source_ids ([], [], []))"

text \<open>
  The innermost loop, \<^verbatim>\<open>for d in reg_dist\<close>, with the slope it collects:
  \<^verbatim>\<open>
  idx = find_nearest_idx(p[0], d)
  reg_slope.append(p[1][idx])
  \<close>
  The index is never negative, so the read fails only beyond the end. The list
  \<^verbatim>\<open>reg_area\<close> filled beside it is never read again and is left out.
\<close>

fun resample_loop :: "profile \<Rightarrow> real list \<Rightarrow> npfloat list \<Rightarrow> error + npfloat list" where
  "resample_loop p [] reg_slope = Inr reg_slope"
| "resample_loop p (d # ds) reg_slope =
     (let idx = find_nearest_idx (fst p) d
      in if idx < int (length (fst (snd p)))
         then resample_loop p ds (reg_slope @ [fst (snd p) ! nat idx])
         else Inl IndexError)"

text \<open>
  \<^verbatim>\<open>data[i] = reg_slope\<close>, where the row \<^verbatim>\<open>data[i]\<close> has \<open>profile_len\<close> cells: the
  list must have that length, or length one (a single value fills the row); any other
  length cannot be broadcast.
\<close>

definition set_row :: "int \<Rightarrow> npfloat list \<Rightarrow> error + npfloat list" where
  "set_row profile_len reg_slope =
     (if int (length reg_slope) = profile_len then Inr reg_slope
      else if length reg_slope = 1 then Inr (replicate (nat profile_len) (hd reg_slope))
      else Inl (ValueError ''could not broadcast input array''))"

text \<open>
  The body of the second loop, for one profile:
  \<^verbatim>\<open>
  reg_slope = []
  reg_dist = []
  reg_area = []
  for d in reg_dist:
      ...
  data[i] = reg_slope
  reg_df['resampled_dist'] = reg_dist
  \<close>
  The grid built before the loops is overwritten by the empty list before it is
  iterated, and \<^verbatim>\<open>reg_df\<close> is bound nowhere in the module.
\<close>

definition fill_row :: "int \<Rightarrow> profile \<Rightarrow> error + npfloat list" where
  "fill_row profile_len p =
     (let reg_slope = [];
          reg_dist = []
      in case resample_loop p reg_dist reg_slope of
           Inl e \<Rightarrow> Inl e
         | Inr reg_slope \<Rightarrow>
             (case set_row profile_len reg_slope of
                Inl e \<Rightarrow> Inl e
              | Inr data_i \<Rightarrow> Inl (NameError ''reg_df'')))"

fun fill_loop :: "int \<Rightarrow> profile list \<Rightarrow> npfloat list list \<Rightarrow> error + npfloat list list" where
  "fill_loop profile_len [] data = Inr data"
| "fill_loop profile_len (p # ps) data =
     (case fill_row profile_len p of
        Inl e \<Rightarrow> Inl e
      | Inr data_i \<Rightarrow> fill_loop profile_len ps (data @ [data_i]))"

text \<open>
  \<^verbatim>\<open>np.arange(start, stop, step)\<close> on integers: a zero step raises; otherwise the
  values \<open>start + k * step\<close> for \<open>k\<close> below the ceiling of \<open>(stop - start) / step\<close>.
\<close>

definition arange :: "int \<Rightarrow> int \<Rightarrow> int \<Rightarrow> error + int list" where
  "arange start stop step =
     (if step = 0 then Inl ZeroDivisionError
      else Inr (map (\<lambda>k. start + int k * step) [0..<nat (- ((start - stop) div step))]))"

text \<open>
  \<^verbatim>\<open>ResampleProfiles\<close>: the grid \<^verbatim>\<open>reg_dist = np.arange(0, profile_len, step)\<close>, the
  selection, then \<^verbatim>\<open>np.empty((n_profiles, profile_len))\<close>, which refuses a negative
  dimension, then the second loop. The result is
  \<^verbatim>\<open>(thinned_df, data, final_sources)\<close>. The grid is overwritten before it is read, so
  \<open>step\<close> only decides whether building it raises.
\<close>

definition ResampleProfiles ::
  "dataframe \<Rightarrow> int \<Rightarrow> int \<Rightarrow> error + dataframe \<times> npfloat list list \<times> int list" where
  "ResampleProfiles df profile_len step =
     (case arange 0 profile_len step of
        Inl e \<Rightarrow> Inl e
      | Inr reg_dist \<Rightarrow>
          (case ResampleProfiles_select df profile_len of
             (profiles, thinned_df, final_sources) \<Rightarrow>
               if profile_len < 0
               then Inl (ValueError ''negative dimensions are not allowed'')
               else (case fill_loop profile_len profiles [] of
                       Inl e \<Rightarrow> Inl e
                     | Inr data \<Rightarrow> Inr (thinned_df, data, final_sources))))"


subsection \<open>Clustering\<close>

text \<open>
  \<^verbatim>\<open>np.arccos\<close> on one cell: NaN stays NaN, and a number outside \<open>[-1, 1]\<close> gives NaN.
\<close>

definition np_arccos :: "npfloat \<Rightarrow> npfloat" where
  "np_arccos c =
     (case c of
        None \<Rightarrow> None
      | Some x \<Rightarrow> if - 1 \<le> x \<and> x \<le> 1 then Some (arccos x) else None)"

text \<open>The distance computation of \<^verbatim>\<open>ClusterProfiles\<close>: \<^verbatim>\<open>dd = np.arccos(cc)\<close>.\<close>

definition arccos_distances :: "npfloat list \<Rightarrow> npfloat list" where
  "arccos_distances cc = map np_arccos cc"

text \<open>
  \<^verbatim>\<open>linkage(dd, method=method)\<close> is a library call: it rejects a method name outside
  its list before it looks at the distances, and otherwise builds the merge tree. The
  tree construction is a parameter.
\<close>

definition LINKAGE_METHODS :: "string list" where
  "LINKAGE_METHODS =
     [''single'', ''complete'', ''average'', ''weighted'', ''centroid'', ''median'', ''ward'']"

definition linkage ::
  "(npfloat list \<Rightarrow> string \<Rightarrow> error + 'tree) \<Rightarrow> npfloat list \<Rightarrow> string \<Rightarrow> error + 'tree" where
  "linkage build_tree y method =
     (if method \<notin> set LINKAGE_METHODS then Inl (ValueError ''Invalid method'')
      else build_tree y method)"

text \<open>
  The propagation loop of \<^verbatim>\<open>ClusterProfiles\<close>:
  \<^verbatim>\<open>
  for i,id in enumerate(source_ids):
      thinned_df.loc[thinned_df.id==id, 'cluster_id'] = cl[i]
  \<close>
  \<open>i\<close> is the running index; \<^verbatim>\<open>cl[i]\<close> beyond the end of \<open>cl\<close> raises.
\<close>

fun assign_cluster_ids :: "int list \<Rightarrow> nat \<Rightarrow> int list \<Rightarrow> dataframe \<Rightarrow> error + dataframe" where
  "assign_cluster_ids cl i [] thinned_df = Inr thinned_df"
| "assign_cluster_ids cl i (a # source_ids) thinned_df =
     (if i < length cl
      then assign_cluster_ids cl (Suc i) source_ids
             (map (\<lambda>r. if id_col r = a then r\<lparr>cluster_id := Some (cl ! i)\<rparr> else r) thinned_df)
      else Inl IndexError)"

text \<open>
  \<^verbatim>\<open>ClusterProfiles\<close>, statement by statement: resampling, \<^verbatim>\<open>cc = Pearson(data)\<close>,
  \<^verbatim>\<open>dd = np.arccos(cc)\<close>, the linkage, the threshold \<^verbatim>\<open>thr = np.arccos(min_corr)\<close>,
  \<^verbatim>\<open>cl = fcluster(ln, thr, criterion = 'distance')\<close>, the message that reads
  \<^verbatim>\<open>cl.max()\<close> (which raises on an empty array), and the propagation loop over
  \<^verbatim>\<open>thinned_df['id'].unique()\<close>. The correlation routine, the tree construction and the
  flat-cluster extraction are library code and enter as parameters. Printing and the
  dendrogram plot have no effect on the result and are left out.
\<close>

definition ClusterProfiles ::
  "(npfloat list list \<Rightarrow> npfloat list) \<Rightarrow> (npfloat list \<Rightarrow> string \<Rightarrow> error + 'tree) \<Rightarrow>
   ('tree \<Rightarrow> npfloat \<Rightarrow> int list) \<Rightarrow>
   dataframe \<Rightarrow> int \<Rightarrow> int \<Rightarrow> real \<Rightarrow> string \<Rightarrow> error + dataframe" where
  "ClusterProfiles Pearson build_tree fcluster df profile_len step min_corr method =
     (case ResampleProfiles df profile_len step of
        Inl e \<Rightarrow> Inl e
      | Inr (thinned_df, data, final_sources) \<Rightarrow>
          (let cc = Pearson data;
               dd = arccos_distances cc
           in case linkage build_tree dd method of
                Inl e \<Rightarrow> Inl e
              | Inr Z \<Rightarrow>
                  (let thr = np_arccos (Some min_corr);
                       cl = fcluster Z thr
                   in if cl = [] then Inl (ValueError ''zero-size array'')
                      else assign_cluster_ids cl 0 (unique (map id_col thinned_df)) thinned_df)))"



subsection \<open>Notions used in the statements\<close>

text \<open>
  The rows of a source that carry a slope, the qualification test of the resampler,
  and the profile triple of a source.
\<close>

definition valid_rows :: "int \<Rightarrow> dataframe \<Rightarrow> dataframe" where
  "valid_rows a df = filter (\<lambda>r. slope r \<noteq> None) (filter (\<lambda>r. id_col r = a) df)"

definition qualifies :: "real \<Rightarrow> dataframe \<Rightarrow> int \<Rightarrow> bool" where
  "qualifies min_length df a \<longleftrightarrow> min_length \<le> real (length (valid_rows a df))"

definition profile_of :: "dataframe \<Rightarrow> int \<Rightarrow> profile" where
  "profile_of df a =
     (map distance_from_source (valid_rows a df), map slope (valid_rows a df),
      map drainage_areas (valid_rows a df))"

text \<open>
  The values the slope estimator computes when the regression does not raise: the
  slope of a window, the slopes of a profile, one pass over a source, and the table after
  all passes.
\<close>

definition linregress_value :: "real list \<Rightarrow> real list \<Rightarrow> npfloat" where
  "linregress_value x y =
     (let xmean = mean x;
          ymean = mean y;
          ssxm = mean (map (\<lambda>a. (a - xmean) * (a - xmean)) x);
          ssxym = mean (map (\<lambda>(a, b). (a - xmean) * (b - ymean)) (zip x y))
      in if ssxm = 0 then None else Some (ssxym / ssxm))"

definition window_value :: "int \<Rightarrow> (real \<times> real) list \<Rightarrow> int \<Rightarrow> npfloat" where
  "window_value slope_window_size pts_array index =
     (let slicer = (slope_window_size - 1) div 2;
          this_slice = py_slice (index - slicer) (index + slicer + 1) pts_array
      in if int (length this_slice) = slope_window_size
         then map_option abs (linregress_value (map fst this_slice) (map snd this_slice))
         else None)"

definition profile_slope_values :: "int \<Rightarrow> (real \<times> real) list \<Rightarrow> npfloat list" where
  "profile_slope_values slope_window_size pts_array =
     map (\<lambda>index. window_value slope_window_size pts_array (int index))
       [0..<length pts_array]"

definition slope_step_value :: "int \<Rightarrow> int \<Rightarrow> dataframe \<Rightarrow> dataframe" where
  "slope_step_value slope_window_size a df =
     loc_set_slope a (profile_slope_values slope_window_size (profile_pts a df)) df"

definition slope_table_value :: "int \<Rightarrow> dataframe \<Rightarrow> dataframe" where
  "slope_table_value slope_window_size df =
     fold (slope_step_value slope_window_size) (unique (map id_col df)) df"

subsection \<open>Example inputs\<close>

text \<open>
  Two small tables. In \<open>raw_table\<close> source 7 has three nodes on a line falling by 2 per
  unit distance and source 8 has a single node; no slope has been computed. In
  \<open>sloped_table\<close> source 7 has two nodes with a slope and one without, and source 8 has
  one node with a slope.
\<close>

definition node :: "int \<Rightarrow> real \<Rightarrow> real \<Rightarrow> npfloat \<Rightarrow> row" where
  "node a d e s =
     \<lparr>id_col = a, distance_from_source = d, elevation = e, drainage_areas = 1,
      slope = s, cluster_id = None\<rparr>"

definition raw_table :: dataframe where
  "raw_table = [node 7 0 10 None, node 8 0 5 None, node 7 1 8 None, node 7 2 6 None]"

definition sloped_table :: dataframe where
  "sloped_table =
     [node 7 0 10 (Some 2), node 8 0 5 (Some 1), node 7 1 8 (Some 2), node 7 2 6 None]"

text \<open>
  Stand-ins for the library routines, to run \<open>ClusterProfiles\<close> on an example: no
  correlations (as for fewer than two profiles), a tree without content, no labels or a
  single label.
\<close>

definition no_correlations :: "npfloat list list \<Rightarrow> npfloat list" where
  "no_correlations data = []"

definition no_tree :: "npfloat list \<Rightarrow> string \<Rightarrow> error + unit" where
  "no_tree y method = Inr ()"

definition no_labels :: "unit \<Rightarrow> npfloat \<Rightarrow> int list" where
  "no_labels Z thr = []"

definition one_label :: "unit \<Rightarrow> npfloat \<Rightarrow> int list" where
  "one_label Z thr = [1]"

section \<open>Properties\<close>

subsection \<open>Nearest-sample lookup\<close>

lemma searchsorted_left_range:
  "0 \<le> searchsorted_left array v \<and> searchsorted_left array v \<le> int (length array)"
  by (simp add: searchsorted_left_def length_takeWhile_le)

lemma searchsorted_left_between:
  assumes "sorted array" and "Suc j < length array"
    and "array ! j < v" and "v \<le> array ! Suc j"
  shows "searchsorted_left array v = int (Suc j)"
proof -
  have below: "array ! i < v" if "i < Suc j" for i
  proof -
    from that assms(2) have "i \<le> j" and "j < length array" by simp_all
    then have "array ! i \<le> array ! j"
      using assms(1) by (simp add: sorted_nth_mono)
    with assms(3) show ?thesis by simp
  qed
  have "takeWhile (\<lambda>x. x < v) array = take (Suc j) array"
  proof (rule takeWhile_eq_take_P_nth)
    fix i assume "i < Suc j" "i < length array"
    then show "array ! i < v" using below by simp
  next
    assume "Suc j < length array"
    show "\<not> array ! Suc j < v" using assms(4) by simp
  qed
  then show ?thesis
    using assms(2) by (simp add: searchsorted_left_def)
qed

text \<open>
  C10. On a non-empty sorted array the index returned by \<open>find_nearest_idx\<close> lies
  between 0 and the length minus one, whatever the query value (also below the first or
  above the last element); on the empty array it returns 0, which is not a valid index.
\<close>

theorem find_nearest_idx_in_bounds:
  "(sorted array \<and> array \<noteq> [] \<longrightarrow>
      0 \<le> find_nearest_idx array v \<and> find_nearest_idx array v \<le> int (length array) - 1)
   \<and> find_nearest_idx [] v = 0
   \<and> \<not> find_nearest_idx [] v < int (length ([] :: real list))"
proof -
  have "0 \<le> find_nearest_idx array v \<and> find_nearest_idx array v \<le> int (length array) - 1"
    if "array \<noteq> []"
  proof -
    from that have "0 < int (length array)" by simp
    then show ?thesis
      using searchsorted_left_range [of array v]
      by (auto simp: find_nearest_idx_def Let_def)
  qed
  moreover have "find_nearest_idx [] v = 0"
    by (simp add: find_nearest_idx_def searchsorted_left_def)
  ultimately show ?thesis by simp
qed

theorem find_nearest_idx_in_bounds_witness:
  "sorted [0, 2 :: real] \<and> [0, 2 :: real] \<noteq> []
   \<and> find_nearest_idx [0, 2] (-5) = 0
   \<and> find_nearest_idx [0, 2] 7 = 1
   \<and> 0 \<le> find_nearest_idx [0, 2] 7
   \<and> find_nearest_idx [0, 2] 7 \<le> int (length [0, 2 :: real]) - 1"
  using find_nearest_idx_in_bounds [of "[0, 2]" 7]
  by (simp add: find_nearest_idx_def searchsorted_left_def)

text \<open>
  C5, as stated, fails: a grid value exactly half way between two adjacent samples is
  sent to the upper of the two indices, because the comparison that selects the lower
  index is strict. Here the value 1 lies half way between the samples 0 and 2.
\<close>

theorem find_nearest_idx_tie_counterexample:
  "sorted [0, 2 :: real] \<and> \<bar>1 - [0, 2 :: real] ! 0\<bar> = \<bar>1 - [0, 2 :: real] ! 1\<bar>
   \<and> find_nearest_idx [0, 2] 1 = 1"
  by (simp add: find_nearest_idx_def searchsorted_left_def)

text \<open>
  C5, amended. For a sorted distance array and a value exactly equidistant from two
  adjacent distinct samples, \<open>find_nearest_idx\<close> returns the higher of the two indices.
\<close>

theorem find_nearest_idx_tie_upper:
  assumes "sorted array" and "Suc j < length array"
    and "array ! j < array ! Suc j"
    and "\<bar>v - array ! j\<bar> = \<bar>v - array ! Suc j\<bar>"
  shows "find_nearest_idx array v = int (Suc j)"
proof -
  from assms(3,4) have lo: "array ! j < v" and hi: "v < array ! Suc j"
    by (auto simp: abs_if split: if_splits)
  have idx: "searchsorted_left array v = int (Suc j)"
    using searchsorted_left_between [OF assms(1,2) lo] hi by simp
  have prev: "nat (int (Suc j) - 1) = j" and cur: "nat (int (Suc j)) = Suc j"
    by simp_all
  show ?thesis
    unfolding find_nearest_idx_def Let_def idx prev cur
    using assms(2,4) by simp
qed

theorem find_nearest_idx_tie_upper_witness:
  "sorted [0, 2, 4 :: real] \<and> Suc 1 < length [0, 2, 4 :: real]
   \<and> [0, 2, 4 :: real] ! 1 < [0, 2, 4 :: real] ! Suc 1
   \<and> \<bar>3 - [0, 2, 4 :: real] ! 1\<bar> = \<bar>3 - [0, 2, 4 :: real] ! Suc 1\<bar>
   \<and> find_nearest_idx [0, 2, 4] 3 = int (Suc 1)"
  using find_nearest_idx_tie_upper [of "[0, 2, 4]" 1 3] by simp


subsection \<open>Slope estimation\<close>

lemma sum_dev_prod:
  "(\<Sum>(x, y)\<leftarrow>pts. (x - c) * (y - d)) =
     (\<Sum>(x, y)\<leftarrow>pts. x * y) - d * (\<Sum>(x, y)\<leftarrow>pts. x) - c * (\<Sum>(x, y)\<leftarrow>pts. y)
       + real (length pts) * c * d" for c d :: real
  by (induction pts) (auto simp: algebra_simps)

lemma sum_dev_sq:
  "(\<Sum>x\<leftarrow>map fst pts. (x - c) * (x - c)) =
     (\<Sum>(x, y)\<leftarrow>pts. x * x) - 2 * c * (\<Sum>(x, y)\<leftarrow>pts. x) + real (length pts) * c * c"
  for c :: real
  by (induction pts) (auto simp: algebra_simps)

lemma sum_fst: "sum_list (map fst pts) = (\<Sum>(x, y)\<leftarrow>pts. x)" for pts :: "(real \<times> real) list"
  by (induction pts) auto

lemma sum_snd: "sum_list (map snd pts) = (\<Sum>(x, y)\<leftarrow>pts. y)" for pts :: "(real \<times> real) list"
  by (induction pts) auto

lemma linregress_value_closed_form:
  "linregress_value (map fst pts) (map snd pts) = ols_gradient pts"
proof (cases "pts = []")
  case True
  then show ?thesis by (simp add: linregress_value_def ols_gradient_def mean_def)
next
  case False
  define n where "n = real (length pts)"
  define sx where "sx = (\<Sum>(x, y)\<leftarrow>pts. x)"
  define sy where "sy = (\<Sum>(x, y)\<leftarrow>pts. y)"
  define sxy where "sxy = (\<Sum>(x, y)\<leftarrow>pts. x * y)"
  define sxx where "sxx = (\<Sum>(x, y)\<leftarrow>pts. x * x)"
  from False have n: "n > 0" by (simp add: n_def)
  have mx: "mean (map fst pts) = sx / n" and my: "mean (map snd pts) = sy / n"
    by (simp_all add: mean_def sum_fst sum_snd sx_def sy_def n_def)
  have "(\<Sum>x\<leftarrow>map fst pts. (x - sx / n) * (x - sx / n)) = sxx - 2 * (sx / n) * sx + n * (sx / n) * (sx / n)"
    by (simp only: sum_dev_sq sxx_def sx_def n_def)
  also have "\<dots> = (n * sxx - sx * sx) / n"
    using n by (simp add: field_simps)
  finally have ssxm: "mean (map (\<lambda>a. (a - sx / n) * (a - sx / n)) (map fst pts)) = (n * sxx - sx * sx) / (n * n)"
    by (simp add: mean_def n_def)
  have "(\<Sum>(x, y)\<leftarrow>pts. (x - sx / n) * (y - sy / n)) = sxy - (sy / n) * sx - (sx / n) * sy + n * (sx / n) * (sy / n)"
    by (simp only: sum_dev_prod sxy_def sx_def sy_def n_def)
  also have "\<dots> = (n * sxy - sx * sy) / n"
    using n by (simp add: field_simps)
  finally have ssxym: "mean (map (\<lambda>(a, b). (a - sx / n) * (b - sy / n)) pts) = (n * sxy - sx * sy) / (n * n)"
    by (simp add: mean_def n_def)
  have lhs: "linregress_value (map fst pts) (map snd pts) =
     (if (n * sxx - sx * sx) / (n * n) = 0 then None
      else Some (((n * sxy - sx * sy) / (n * n)) / ((n * sxx - sx * sx) / (n * n))))"
    unfolding linregress_value_def Let_def mx my zip_map_fst_snd ssxm ssxym ..
  have rhs: "ols_gradient pts =
     (if n * sxx - sx * sx = 0 then None else Some ((n * sxy - sx * sy) / (n * sxx - sx * sx)))"
    by (simp add: ols_gradient_def Let_def n_def sx_def sy_def sxy_def sxx_def)
  show ?thesis
    unfolding lhs rhs using n by simp
qed


text \<open>
  The direct formula is the gradient of the least-squares line: with the matching
  intercept, no other line has a smaller sum of squared residuals.
\<close>

lemma sse_shift:
  "sse pts m' c' =
     sse pts m c
     - 2 * ((m' - m) * (\<Sum>(x, y)\<leftarrow>pts. (y - (m * x + c)) * x)
            + (c' - c) * (\<Sum>(x, y)\<leftarrow>pts. y - (m * x + c)))
     + (\<Sum>(x, y)\<leftarrow>pts. ((m' - m) * x + (c' - c)) * ((m' - m) * x + (c' - c)))"
  unfolding sse_def by (induction pts) (auto simp: algebra_simps)

lemma residual_sum:
  "(\<Sum>(x, y)\<leftarrow>pts. y - (m * x + c)) =
     (\<Sum>(x, y)\<leftarrow>pts. y) - m * (\<Sum>(x, y)\<leftarrow>pts. x) - real (length pts) * c"
  for m c :: real
  by (induction pts) (auto simp: algebra_simps)

lemma residual_moment:
  "(\<Sum>(x, y)\<leftarrow>pts. (y - (m * x + c)) * x) =
     (\<Sum>(x, y)\<leftarrow>pts. x * y) - m * (\<Sum>(x, y)\<leftarrow>pts. x * x) - c * (\<Sum>(x, y)\<leftarrow>pts. x)"
  for m c :: real
  by (induction pts) (auto simp: algebra_simps)

lemma sum_squares_nonneg:
  "0 \<le> (\<Sum>(x, y)\<leftarrow>pts. (a * x + b) * (a * x + b))" for a b :: real
  by (induction pts) auto

lemma ols_gradient_least_squares:
  assumes "ols_gradient pts = Some m"
  shows "sse pts m (((\<Sum>(x, y)\<leftarrow>pts. y) - m * (\<Sum>(x, y)\<leftarrow>pts. x)) / real (length pts))
           \<le> sse pts m' c'"
proof -
  define n where "n = real (length pts)"
  define sx where "sx = (\<Sum>(x, y)\<leftarrow>pts. x)"
  define sy where "sy = (\<Sum>(x, y)\<leftarrow>pts. y)"
  define sxy where "sxy = (\<Sum>(x, y)\<leftarrow>pts. x * y)"
  define sxx where "sxx = (\<Sum>(x, y)\<leftarrow>pts. x * x)"
  define c where "c = (sy - m * sx) / n"
  from assms have den: "n * sxx - sx * sx \<noteq> 0"
    and m: "m = (n * sxy - sx * sy) / (n * sxx - sx * sx)"
    by (auto simp: ols_gradient_def Let_def n_def sx_def sy_def sxy_def sxx_def
        split: if_splits)
  have n: "n \<noteq> 0"
  proof
    assume "n = 0"
    then have "pts = []" by (simp add: n_def)
    then have "sx = 0" by (simp add: sx_def)
    with \<open>n = 0\<close> den show False by simp
  qed
  have r0: "(\<Sum>(x, y)\<leftarrow>pts. y - (m * x + c)) = 0"
    unfolding residual_sum sx_def [symmetric] sy_def [symmetric] n_def [symmetric]
    using n by (simp add: c_def)
  have nc: "n * c = sy - m * sx"
    using n by (simp add: c_def)
  have "n * (sxy - m * sxx - c * sx) = n * sxy - m * (n * sxx) - (n * c) * sx"
    by (simp add: algebra_simps)
  also have "\<dots> = (n * sxy - sx * sy) - m * (n * sxx - sx * sx)"
    unfolding nc by (simp add: algebra_simps)
  also have "\<dots> = 0" using den by (simp add: m)
  finally have "sxy - m * sxx - c * sx = 0" using n by simp
  then have r1: "(\<Sum>(x, y)\<leftarrow>pts. (y - (m * x + c)) * x) = 0"
    unfolding residual_moment sx_def [symmetric] sxy_def [symmetric] sxx_def [symmetric] .
  have "sse pts m' c' = sse pts m c +
      (\<Sum>(x, y)\<leftarrow>pts. ((m' - m) * x + (c' - c)) * ((m' - m) * x + (c' - c)))"
    unfolding sse_shift [of pts m' c' m c] r0 r1 by simp
  then have "sse pts m c \<le> sse pts m' c'"
    using sum_squares_nonneg [of "m' - m" "c' - c" pts] by simp
  then show ?thesis
    by (simp only: c_def sy_def sx_def n_def)
qed

lemma length_py_slice_le: "length (py_slice start stop xs) \<le> length xs"
proof -
  have "length (take k (drop l xs)) \<le> length xs" for k l
    by (simp add: min.coboundedI1)
  then show ?thesis by (simp only: py_slice_def Let_def)
qed

lemma py_slice_inside:
  assumes "0 \<le> lo" and "0 \<le> hi" and "hi \<le> int (length xs)"
  shows "py_slice lo hi xs = map (\<lambda>k. xs ! nat k) [lo .. hi - 1]"
proof (cases "lo < hi")
  case False
  then show ?thesis using assms by (simp add: py_slice_def Let_def)
next
  case True
  with assms have eq: "py_slice lo hi xs = take (nat (hi - lo)) (drop (nat lo) xs)"
    by (simp add: py_slice_def Let_def min_def)
  show ?thesis
  proof (rule nth_equalityI)
    show "length (py_slice lo hi xs) = length (map (\<lambda>k. xs ! nat k) [lo .. hi - 1])"
      using True assms by (simp add: eq)
  next
    fix k assume "k < length (py_slice lo hi xs)"
    then have k: "int k < hi - lo" using True assms by (simp add: eq)
    then have "[lo .. hi - 1] ! k = lo + int k" by (simp add: nth_upto)
    moreover have "nat (lo + int k) = nat lo + k" using assms(1) by (simp add: nat_add_distrib)
    ultimately show "py_slice lo hi xs ! k = map (\<lambda>k. xs ! nat k) [lo .. hi - 1] ! k"
      using k True assms by (simp add: eq)
  qed
qed

lemma length_py_slice_outside:
  assumes "0 \<le> s" and "0 \<le> i" and "i < int (length xs)"
    and "i - s < 0 \<or> int (length xs) \<le> i + s"
  shows "int (length (py_slice (i - s) (i + s + 1) xs)) \<le> 2 * s"
  using assms by (auto simp: py_slice_def Let_def min_def max_def)

lemma window_value_interior:
  assumes "odd W" and "0 \<le> i - (W - 1) div 2" and "i + (W - 1) div 2 < int (length pts)"
  shows "window_value W pts i =
     map_option abs (ols_gradient (map (\<lambda>k. pts ! nat k) [i - (W - 1) div 2 .. i + (W - 1) div 2]))"
proof -
  define s where "s = (W - 1) div 2"
  from assms(1) have W: "W = 2 * s + 1" unfolding s_def by presburger
  show ?thesis
  proof (cases "0 \<le> s")
    case True
    have slice: "py_slice (i - s) (i + s + 1) pts = map (\<lambda>k. pts ! nat k) [i - s .. i + s]"
      using py_slice_inside [of "i - s" "i + s + 1" pts] assms(2,3) True by (simp add: s_def)
    from True have "int (length (map (\<lambda>k. pts ! nat k) [i - s .. i + s])) = W"
      by (simp add: W)
    then show ?thesis
      unfolding window_value_def Let_def s_def [symmetric] slice linregress_value_closed_form
      by simp
  next
    case False
    then have "W < 0" by (simp add: W)
    moreover from False have "[i - s .. i + s] = []" by simp
    ultimately show ?thesis
      unfolding window_value_def Let_def s_def [symmetric]
      by (simp add: ols_gradient_def)
  qed
qed

lemma window_value_outside:
  assumes "0 \<le> i" and "i < int (length pts)"
    and "i - (W - 1) div 2 < 0 \<or> int (length pts) \<le> i + (W - 1) div 2"
  shows "window_value W pts i = None"
proof -
  define s where "s = (W - 1) div 2"
  have W: "2 * s < W" unfolding s_def by presburger
  show ?thesis
  proof (cases "0 \<le> s")
    case True
    from length_py_slice_outside [OF True assms(1,2)] assms(3)
    have "int (length (py_slice (i - s) (i + s + 1) pts)) \<le> 2 * s" by (simp add: s_def)
    with W show ?thesis
      unfolding window_value_def Let_def s_def [symmetric] by simp
  next
    case False
    with assms have "W \<noteq> 0" unfolding s_def by presburger
    with False have "W < 0" unfolding s_def by presburger
    then show ?thesis
      unfolding window_value_def Let_def by simp
  qed
qed

lemma window_value_short:
  assumes "int (length pts) < W"
  shows "window_value W pts i = None"
  using assms length_py_slice_le [of "i - (W - 1) div 2" "i + (W - 1) div 2 + 1" pts]
  unfolding window_value_def Let_def by simp


lemma length_py_slice_window:
  assumes "0 \<le> s" and "0 \<le> i"
  shows "int (length (py_slice (i - s) (i + s + 1) xs)) \<le> 2 * s + 1"
  using assms by (auto simp: py_slice_def Let_def min_def max_def)

lemma window_value_even:
  assumes "even W"
  shows "window_value W pts (int i) = None"
proof -
  define s where "s = (W - 1) div 2"
  from assms have W: "W = 2 * s + 2" unfolding s_def by presburger
  show ?thesis
  proof (cases "0 \<le> s")
    case True
    from length_py_slice_window [OF True, of "int i" pts]
    have "int (length (py_slice (int i - s) (int i + s + 1) pts)) \<noteq> W"
      by (simp add: W)
    then show ?thesis
      unfolding window_value_def Let_def s_def [symmetric] by simp
  next
    case False
    show ?thesis
    proof (cases "W = 0")
      case True
      then have "s = - 1" unfolding s_def by simp
      then have "py_slice (int i - s) (int i + s + 1) pts = []"
        by (simp add: py_slice_def Let_def min_def)
      then show ?thesis
        unfolding window_value_def Let_def s_def [symmetric]
        by (simp add: linregress_value_def mean_def)
    next
      case False
      with \<open>\<not> 0 \<le> s\<close> have "W < 0" by (simp add: W)
      then show ?thesis
        unfolding window_value_def Let_def by simp
    qed
  qed
qed

lemma unique_props: "set (unique xs) = set xs" "distinct (unique xs)"
  by (simp_all add: unique_def)

lemma loc_set_slope_frame:
  "map (\<lambda>r. r\<lparr>slope := None\<rparr>) (loc_set_slope a vs df) = map (\<lambda>r. r\<lparr>slope := None\<rparr>) df"
  by (induction df arbitrary: vs) (auto split: list.splits)

lemma loc_set_slope_other:
  "b \<noteq> a \<Longrightarrow>
     filter (\<lambda>r. id_col r = b) (loc_set_slope a vs df) = filter (\<lambda>r. id_col r = b) df"
  by (induction df arbitrary: vs) (auto split: list.splits)

lemma loc_set_slope_own:
  "length vs = length (filter (\<lambda>r. id_col r = a) df) \<Longrightarrow>
     map slope (filter (\<lambda>r. id_col r = a) (loc_set_slope a vs df)) = vs"
  by (induction df arbitrary: vs) (auto split: list.splits)

lemma profile_pts_frame:
  assumes "map (\<lambda>r. r\<lparr>slope := None\<rparr>) df' = map (\<lambda>r. r\<lparr>slope := None\<rparr>) df"
  shows "profile_pts b df' = profile_pts b df"
proof -
  have "profile_pts b d = profile_pts b (map (\<lambda>r. r\<lparr>slope := None\<rparr>) d)" for d
    by (simp add: profile_pts_def filter_map comp_def)
  then show ?thesis using assms by metis
qed

lemma length_profile_pts:
  "length (profile_pts a df) = length (filter (\<lambda>r. id_col r = a) df)"
  by (simp add: profile_pts_def)

lemma nth_profile_pts:
  "k < length (filter (\<lambda>r. id_col r = a) df) \<Longrightarrow>
     profile_pts a df ! k =
       (distance_from_source (filter (\<lambda>r. id_col r = a) df ! k),
        elevation (filter (\<lambda>r. id_col r = a) df ! k))"
  by (simp add: profile_pts_def)

lemma length_profile_slope_values: "length (profile_slope_values W pts) = length pts"
  by (simp add: profile_slope_values_def)

lemma slope_step_value_frame:
  "map (\<lambda>r. r\<lparr>slope := None\<rparr>) (slope_step_value W a df) = map (\<lambda>r. r\<lparr>slope := None\<rparr>) df"
  by (simp add: slope_step_value_def loc_set_slope_frame)

lemma slope_step_value_own:
  "map slope (filter (\<lambda>r. id_col r = a) (slope_step_value W a df)) =
     profile_slope_values W (profile_pts a df)"
  by (simp add: slope_step_value_def loc_set_slope_own length_profile_slope_values length_profile_pts)

lemma slope_step_value_other:
  "b \<noteq> a \<Longrightarrow>
     filter (\<lambda>r. id_col r = b) (slope_step_value W a df) = filter (\<lambda>r. id_col r = b) df"
  by (simp add: slope_step_value_def loc_set_slope_other)


lemma fold_slope_step_value_other:
  "b \<notin> set ids \<Longrightarrow>
     filter (\<lambda>r. id_col r = b) (fold (slope_step_value W) ids df) = filter (\<lambda>r. id_col r = b) df"
  by (induction ids arbitrary: df) (simp_all add: slope_step_value_other)

lemma fold_slope_step_value_own:
  "distinct ids \<Longrightarrow> b \<in> set ids \<Longrightarrow>
     map slope (filter (\<lambda>r. id_col r = b) (fold (slope_step_value W) ids df)) =
       profile_slope_values W (profile_pts b df)"
proof (induction ids arbitrary: df)
  case Nil
  then show ?case by simp
next
  case (Cons a ids)
  show ?case
  proof (cases "b = a")
    case True
    with Cons.prems have "b \<notin> set ids" by simp
    then show ?thesis
      using True by (simp add: fold_slope_step_value_other slope_step_value_own)
  next
    case False
    with Cons.prems have "distinct ids" "b \<in> set ids" by simp_all
    from Cons.IH [OF this]
    have "map slope (filter (\<lambda>r. id_col r = b) (fold (slope_step_value W) ids (slope_step_value W a df))) =
       profile_slope_values W (profile_pts b (slope_step_value W a df))" .
    also have "profile_pts b (slope_step_value W a df) = profile_pts b df"
      by (rule profile_pts_frame) (rule slope_step_value_frame)
    finally show ?thesis by simp
  qed
qed


lemma slope_table_value_profile:
  "map slope (filter (\<lambda>r. id_col r = a) (slope_table_value W df)) =
     profile_slope_values W (profile_pts a df)"
proof (cases "a \<in> set (map id_col df)")
  case True
  then show ?thesis
    unfolding slope_table_value_def
    by (intro fold_slope_step_value_own) (simp_all add: unique_props)
next
  case False
  then have "a \<notin> set (unique (map id_col df))" by (simp add: unique_props)
  then have "filter (\<lambda>r. id_col r = a) (slope_table_value W df) = filter (\<lambda>r. id_col r = a) df"
    unfolding slope_table_value_def by (rule fold_slope_step_value_other)
  moreover from False have "filter (\<lambda>r. id_col r = a) df = []"
    by (auto simp: filter_empty_conv)
  ultimately show ?thesis
    by (simp add: profile_slope_values_def profile_pts_def)
qed

lemma slope_table_value_nth:
  assumes "i < length (filter (\<lambda>r. id_col r = a) df)"
  shows "slope (filter (\<lambda>r. id_col r = a) (slope_table_value W df) ! i) =
     window_value W (profile_pts a df) (int i)"
proof -
  have len: "length (filter (\<lambda>r. id_col r = a) (slope_table_value W df)) =
      length (filter (\<lambda>r. id_col r = a) df)"
    using arg_cong [OF slope_table_value_profile [of a W df], of length]
    by (simp add: length_profile_slope_values length_profile_pts)
  have "slope (filter (\<lambda>r. id_col r = a) (slope_table_value W df) ! i) =
      map slope (filter (\<lambda>r. id_col r = a) (slope_table_value W df)) ! i"
    using assms len by simp
  also have "\<dots> = profile_slope_values W (profile_pts a df) ! i"
    by (simp only: slope_table_value_profile)
  also have "\<dots> = window_value W (profile_pts a df) (int i)"
    using assms by (simp add: profile_slope_values_def length_profile_pts)
  finally show ?thesis .
qed


lemma slope_table_value_even:
  assumes "even W" and "r \<in> set (filter (\<lambda>r. id_col r = a) (slope_table_value W df))"
  shows "slope r = None"
proof -
  have "map slope (filter (\<lambda>r. id_col r = a) (slope_table_value W df)) =
      profile_slope_values W (profile_pts a df)"
    by (rule slope_table_value_profile)
  moreover have "\<forall>v \<in> set (profile_slope_values W (profile_pts a df)). v = None"
    using assms(1) by (simp add: profile_slope_values_def window_value_even)
  ultimately have
    "\<forall>v \<in> set (map slope (filter (\<lambda>r. id_col r = a) (slope_table_value W df))). v = None"
    by simp
  with assms(2) show ?thesis by simp
qed

text \<open>
  When the window size is not zero the regression is never handed an empty window, so
  the estimator does not raise and computes the values above.
\<close>

lemma linregress_slope_value:
  "x \<noteq> [] \<Longrightarrow> y \<noteq> [] \<Longrightarrow> linregress_slope x y = Inr (linregress_value x y)"
  by (simp add: linregress_slope_def linregress_value_def Let_def)

lemma window_slope_value:
  assumes "W \<noteq> 0"
  shows "window_slope W pts i = Inr (window_value W pts i)"
proof -
  define sl where "sl = py_slice (i - (W - 1) div 2) (i + (W - 1) div 2 + 1) pts"
  show ?thesis
  proof (cases "int (length sl) = W")
    case True
    with assms have "sl \<noteq> []" by auto
    then have "linregress_slope (map fst sl) (map snd sl) =
        Inr (linregress_value (map fst sl) (map snd sl))"
      by (simp add: linregress_slope_value)
    with True show ?thesis
      unfolding window_slope_def window_value_def Let_def sl_def [symmetric] by simp
  next
    case False
    then show ?thesis
      unfolding window_slope_def window_value_def Let_def sl_def [symmetric] by simp
  qed
qed

lemma slopes_loop_value:
  "W \<noteq> 0 \<Longrightarrow>
     slopes_loop W pts idxs acc = Inr (acc @ map (\<lambda>index. window_value W pts (int index)) idxs)"
  by (induction idxs arbitrary: acc) (simp_all add: window_slope_value)

lemma profile_slopes_value:
  "W \<noteq> 0 \<Longrightarrow> profile_slopes W pts = Inr (profile_slope_values W pts)"
  by (simp add: profile_slopes_def profile_slope_values_def slopes_loop_value)

lemma slope_step_value:
  "W \<noteq> 0 \<Longrightarrow> slope_step W a df = Inr (slope_step_value W a df)"
  by (simp add: slope_step_def slope_step_value_def profile_slopes_value)

lemma slope_table_loop_value:
  "W \<noteq> 0 \<Longrightarrow> slope_table_loop W ids df = Inr (fold (slope_step_value W) ids df)"
  by (induction ids arbitrary: df) (simp_all add: slope_step_value)

lemma CalculateSlope_rows_value:
  "W \<noteq> 0 \<Longrightarrow> CalculateSlope_rows W df = Inr (slope_table_value W df)"
  by (simp add: CalculateSlope_rows_def slope_table_value_def slope_table_loop_value)






lemma raw_table_slopes:
  "slope_table_value 3 raw_table =
     [node 7 0 10 None, node 8 0 5 None, node 7 1 8 (Some 2), node 7 2 6 None]"
  by (simp add: slope_table_value_def unique_def raw_table_def node_def slope_step_value_def
      profile_pts_def profile_slope_values_def window_value_def py_slice_def
      linregress_value_def mean_def upt_rec)

lemma sloped_table_slopes:
  "slope_table_value 3 sloped_table =
     [node 7 0 10 None, node 8 0 5 None, node 7 1 8 (Some 2), node 7 2 6 None]"
  by (simp add: slope_table_value_def unique_def sloped_table_def node_def slope_step_value_def
      profile_pts_def profile_slope_values_def window_value_def py_slice_def
      linregress_value_def mean_def upt_rec)

lemma raw_table_slopes_even:
  "slope_table_value 4 raw_table = raw_table"
  by (simp add: slope_table_value_def unique_def raw_table_def node_def slope_step_value_def
      profile_pts_def profile_slope_values_def window_value_def py_slice_def upt_rec)

text \<open>
  C1, as stated, fails for an even window size. With \<open>W = 4\<close> the half-width is 1, the
  window of the middle node of a three-node profile is the whole profile and lies inside
  the index range, and the least-squares gradient through it is \<open>-2\<close>; but the slice has
  three points, not four, so the estimator writes NaN.
\<close>

theorem CalculateSlope_even_window_counterexample:
  "0 \<le> int 1 - (4 - 1) div 2
   \<and> int 1 + (4 - 1) div 2 < int (length (filter (\<lambda>r. id_col r = 7) raw_table))
   \<and> CalculateSlope_rows 4 raw_table = Inr raw_table
   \<and> slope (filter (\<lambda>r. id_col r = 7) raw_table ! 1) = None
   \<and> map_option abs (ols_gradient (map (\<lambda>k. profile_pts 7 raw_table ! nat k)
        [int 1 - (4 - 1) div 2 .. int 1 + (4 - 1) div 2])) = Some 2"
proof -
  have len: "length (filter (\<lambda>r. id_col r = 7) raw_table) = 3"
    by (simp add: raw_table_def node_def)
  have pts: "profile_pts 7 raw_table = [(0, 10), (1, 8), (2, 6)]"
    by (simp add: profile_pts_def raw_table_def node_def)
  have run: "CalculateSlope_rows 4 raw_table = Inr raw_table"
    by (simp add: CalculateSlope_rows_value raw_table_slopes_even)
  have missing: "slope (filter (\<lambda>r. id_col r = 7) raw_table ! 1) = None"
    by (simp add: raw_table_def node_def)
  have "map_option abs (ols_gradient (map (\<lambda>k. profile_pts 7 raw_table ! nat k)
        [int 1 - (4 - 1) div 2 .. int 1 + (4 - 1) div 2])) = Some 2"
    by (simp add: pts upto_rec1 ols_gradient_def)
  with run missing len show ?thesis by simp
qed

text \<open>
  C1, amended. For every odd window size \<open>W\<close>, every profile (the rows of one source
  \<open>a\<close>, in row order) and every node index \<open>i\<close> whose window
  \<open>[i - (W-1) div 2, i + (W-1) div 2]\<close> lies inside the index range of the profile,
  \<open>CalculateSlope\<close> returns, and the slope it has written at that node is the absolute
  value of the least-squares gradient through exactly the (distance, elevation) pairs
  of the window (and NaN when that gradient is undefined because all distances of the
  window coincide).
\<close>

theorem CalculateSlope_interior_odd:
  assumes "odd W"
    and "i < length (filter (\<lambda>r. id_col r = a) df)"
    and "0 \<le> int i - (W - 1) div 2"
    and "int i + (W - 1) div 2 < int (length (filter (\<lambda>r. id_col r = a) df))"
  shows "\<exists>out. CalculateSlope_rows W df = Inr out \<and>
     slope (filter (\<lambda>r. id_col r = a) out ! i) =
       map_option abs (ols_gradient (map (\<lambda>k. profile_pts a df ! nat k)
          [int i - (W - 1) div 2 .. int i + (W - 1) div 2]))"
proof -
  from assms(1) have "W \<noteq> 0" by auto
  then have "CalculateSlope_rows W df = Inr (slope_table_value W df)"
    by (rule CalculateSlope_rows_value)
  moreover have "slope (filter (\<lambda>r. id_col r = a) (slope_table_value W df) ! i) =
       map_option abs (ols_gradient (map (\<lambda>k. profile_pts a df ! nat k)
          [int i - (W - 1) div 2 .. int i + (W - 1) div 2]))"
    using assms
    by (simp add: slope_table_value_nth window_value_interior length_profile_pts)
  ultimately show ?thesis by blast
qed

theorem CalculateSlope_interior_odd_witness:
  "odd (3 :: int)
   \<and> 1 < length (filter (\<lambda>r. id_col r = 7) raw_table)
   \<and> 0 \<le> int 1 - (3 - 1) div 2
   \<and> int 1 + (3 - 1) div 2 < int (length (filter (\<lambda>r. id_col r = 7) raw_table))
   \<and> CalculateSlope_rows 3 raw_table =
       Inr [node 7 0 10 None, node 8 0 5 None, node 7 1 8 (Some 2), node 7 2 6 None]
   \<and> slope (filter (\<lambda>r. id_col r = 7)
        [node 7 0 10 None, node 8 0 5 None, node 7 1 8 (Some 2), node 7 2 6 None] ! 1) = Some 2
   \<and> map_option abs (ols_gradient (map (\<lambda>k. profile_pts 7 raw_table ! nat k)
        [int 1 - (3 - 1) div 2 .. int 1 + (3 - 1) div 2])) = Some 2"
proof -
  have len: "length (filter (\<lambda>r. id_col r = 7) raw_table) = 3"
    by (simp add: raw_table_def node_def)
  have pts: "profile_pts 7 raw_table = [(0, 10), (1, 8), (2, 6)]"
    by (simp add: profile_pts_def raw_table_def node_def)
  have ols: "map_option abs (ols_gradient (map (\<lambda>k. profile_pts 7 raw_table ! nat k)
        [int 1 - (3 - 1) div 2 .. int 1 + (3 - 1) div 2])) = Some 2"
    by (simp add: pts upto_rec1 ols_gradient_def)
  have run: "CalculateSlope_rows 3 raw_table =
       Inr [node 7 0 10 None, node 8 0 5 None, node 7 1 8 (Some 2), node 7 2 6 None]"
    by (simp add: CalculateSlope_rows_value raw_table_slopes)
  have "\<exists>out. CalculateSlope_rows 3 raw_table = Inr out \<and>
     slope (filter (\<lambda>r. id_col r = 7) out ! 1) =
       map_option abs (ols_gradient (map (\<lambda>k. profile_pts 7 raw_table ! nat k)
          [int 1 - (3 - 1) div 2 .. int 1 + (3 - 1) div 2]))"
    by (rule CalculateSlope_interior_odd) (simp_all add: len)
  with run ols len show ?thesis by simp
qed

text \<open>
  C4. For every profile (the rows of one source \<open>a\<close>) and every node index \<open>i\<close> whose
  window \<open>[i - (W-1) div 2, i + (W-1) div 2]\<close> is not contained in the index range of
  the profile, \<open>CalculateSlope\<close> returns and has written a missing slope at that node;
  and a profile with fewer than \<open>W\<close> nodes gets a missing slope at every node.
\<close>

theorem CalculateSlope_edges_missing:
  "(i < length (filter (\<lambda>r. id_col r = a) df) \<and>
     (int i - (W - 1) div 2 < 0 \<or>
      int (length (filter (\<lambda>r. id_col r = a) df)) \<le> int i + (W - 1) div 2)
    \<longrightarrow> (\<exists>out. CalculateSlope_rows W df = Inr out \<and>
           slope (filter (\<lambda>r. id_col r = a) out ! i) = None))
   \<and> (int (length (filter (\<lambda>r. id_col r = b) df)) < W
    \<longrightarrow> (\<exists>out. CalculateSlope_rows W df = Inr out \<and>
           (\<forall>r \<in> set (filter (\<lambda>r. id_col r = b) out). slope r = None)))"
proof (intro conjI impI)
  assume edge: "i < length (filter (\<lambda>r. id_col r = a) df) \<and>
     (int i - (W - 1) div 2 < 0 \<or>
      int (length (filter (\<lambda>r. id_col r = a) df)) \<le> int i + (W - 1) div 2)"
  have "W \<noteq> 0"
  proof
    assume "W = 0"
    with edge show False by auto
  qed
  then have "CalculateSlope_rows W df = Inr (slope_table_value W df)"
    by (rule CalculateSlope_rows_value)
  moreover from edge
  have "slope (filter (\<lambda>r. id_col r = a) (slope_table_value W df) ! i) = None"
    by (simp add: slope_table_value_nth window_value_outside length_profile_pts)
  ultimately show "\<exists>out. CalculateSlope_rows W df = Inr out \<and>
           slope (filter (\<lambda>r. id_col r = a) out ! i) = None"
    by blast
next
  assume short: "int (length (filter (\<lambda>r. id_col r = b) df)) < W"
  then have "W \<noteq> 0" by auto
  then have run: "CalculateSlope_rows W df = Inr (slope_table_value W df)"
    by (rule CalculateSlope_rows_value)
  have "map slope (filter (\<lambda>r. id_col r = b) (slope_table_value W df)) =
      profile_slope_values W (profile_pts b df)"
    by (rule slope_table_value_profile)
  moreover have "\<forall>v \<in> set (profile_slope_values W (profile_pts b df)). v = None"
    using short by (simp add: profile_slope_values_def window_value_short length_profile_pts)
  ultimately have
    "\<forall>v \<in> set (map slope (filter (\<lambda>r. id_col r = b) (slope_table_value W df))). v = None"
    by simp
  then have "\<forall>r \<in> set (filter (\<lambda>r. id_col r = b) (slope_table_value W df)). slope r = None"
    by simp
  with run show "\<exists>out. CalculateSlope_rows W df = Inr out \<and>
           (\<forall>r \<in> set (filter (\<lambda>r. id_col r = b) out). slope r = None)"
    by blast
qed

theorem CalculateSlope_edges_missing_witness:
  "2 < length (filter (\<lambda>r. id_col r = 7) sloped_table)
   \<and> int (length (filter (\<lambda>r. id_col r = 7) sloped_table)) \<le> int 2 + (3 - 1) div 2
   \<and> int (length (filter (\<lambda>r. id_col r = 8) sloped_table)) < 3
   \<and> filter (\<lambda>r. id_col r = 8) sloped_table = [node 8 0 5 (Some 1)]
   \<and> CalculateSlope_rows 3 sloped_table =
       Inr [node 7 0 10 None, node 8 0 5 None, node 7 1 8 (Some 2), node 7 2 6 None]
   \<and> slope (filter (\<lambda>r. id_col r = 7)
        [node 7 0 10 None, node 8 0 5 None, node 7 1 8 (Some 2), node 7 2 6 None] ! 2) = None
   \<and> filter (\<lambda>r. id_col r = 8)
        [node 7 0 10 None, node 8 0 5 None, node 7 1 8 (Some 2), node 7 2 6 None] =
       [node 8 0 5 None]
   \<and> slope (node 8 0 5 None) = None"
proof -
  have len: "length (filter (\<lambda>r. id_col r = 7) sloped_table) = 3"
    "filter (\<lambda>r. id_col r = 8) sloped_table = [node 8 0 5 (Some 1)]"
    by (simp_all add: sloped_table_def node_def)
  have run: "CalculateSlope_rows 3 sloped_table =
       Inr [node 7 0 10 None, node 8 0 5 None, node 7 1 8 (Some 2), node 7 2 6 None]"
    by (simp add: CalculateSlope_rows_value sloped_table_slopes)
  from CalculateSlope_edges_missing [of 2 7 sloped_table 3 8]
  have "\<exists>out. CalculateSlope_rows 3 sloped_table = Inr out \<and>
           slope (filter (\<lambda>r. id_col r = 7) out ! 2) = None"
    and "\<exists>out. CalculateSlope_rows 3 sloped_table = Inr out \<and>
           (\<forall>r \<in> set (filter (\<lambda>r. id_col r = 8) out). slope r = None)"
    by (simp_all add: len)
  with run len show ?thesis by (simp add: node_def)
qed

subsection \<open>Resampling and clustering\<close>

lemma min_length_le_iff:
  "(real_of_int L / sqrt 2 \<le> real n) \<longleftrightarrow> (L \<le> 0 \<or> L * L \<le> 2 * int n * int n)"
proof (cases "L \<le> 0")
  case True
  then have "real_of_int L / sqrt 2 \<le> 0" by (simp add: divide_nonpos_pos)
  also have "0 \<le> real n" by simp
  finally show ?thesis using True by simp
next
  case False
  then have Lpos: "0 < real_of_int L" by simp
  have "(real_of_int L / sqrt 2 \<le> real n) \<longleftrightarrow> (real_of_int L \<le> real n * sqrt 2)"
    by (simp add: pos_divide_le_eq)
  also have "\<dots> \<longleftrightarrow> ((real_of_int L)\<^sup>2 \<le> (real n * sqrt 2)\<^sup>2)"
    using Lpos by (simp add: abs_le_square_iff [symmetric])
  also have "(real n * sqrt 2)\<^sup>2 = 2 * real n * real n"
    by (simp add: power2_eq_square algebra_simps)
  also have "((real_of_int L)\<^sup>2 \<le> 2 * real n * real n) \<longleftrightarrow>
      (real_of_int (L * L) \<le> real_of_int (2 * int n * int n))"
    by (simp add: power2_eq_square)
  also have "\<dots> \<longleftrightarrow> (L * L \<le> 2 * int n * int n)"
    by (simp only: of_int_le_iff)
  finally show ?thesis using False by simp
qed


lemma select_step_eq:
  "select_step df m a (P, T, F) =
     (if qualifies m df a then (P @ [profile_of df a], T @ valid_rows a df, F @ [a])
      else (P, T, F))"
  unfolding select_step_def Let_def qualifies_def profile_of_def valid_rows_def
  by simp

lemma fold_select_step:
  "fold (select_step df m) srcs (P, T, F) =
     (P @ map (profile_of df) (filter (qualifies m df) srcs),
      T @ concat (map (\<lambda>a. valid_rows a df) (filter (qualifies m df) srcs)),
      F @ filter (qualifies m df) srcs)"
  by (induction srcs arbitrary: P T F) (simp_all add: select_step_eq)

lemma ResampleProfiles_select_eq:
  "ResampleProfiles_select df profile_len =
     (map (profile_of df)
        (filter (qualifies (real_of_int profile_len / sqrt 2) df) (unique (map id_col df))),
      concat (map (\<lambda>a. valid_rows a df)
        (filter (qualifies (real_of_int profile_len / sqrt 2) df) (unique (map id_col df)))),
      filter (qualifies (real_of_int profile_len / sqrt 2) df) (unique (map id_col df)))"
  unfolding ResampleProfiles_select_def Let_def fold_select_step by simp

lemma remdups_replicate_append:
  "a \<notin> set zs \<Longrightarrow> remdups (replicate (Suc k) a @ zs) = a # remdups zs"
  by (induction k) simp_all

lemma unique_concat_groups:
  assumes "distinct as"
    and "\<And>a. a \<in> set as \<Longrightarrow> g a \<noteq> [] \<and> (\<forall>r \<in> set (g a). id_col r = a)"
  shows "unique (map id_col (concat (map g as))) = as"
  using assms
proof (induction as rule: rev_induct)
  case Nil
  show ?case by (simp add: unique_def)
next
  case (snoc a as)
  from snoc.prems have IH: "unique (map id_col (concat (map g as))) = as"
    by (intro snoc.IH) auto
  from snoc.prems(2) [of a] have ga: "g a \<noteq> []" "\<forall>r \<in> set (g a). id_col r = a" by simp_all
  then have ids: "map id_col (g a) = replicate (length (g a)) a"
    by (simp add: map_replicate_const [symmetric] cong: map_cong)
  have "id_col r \<noteq> a" if "b \<in> set as" "r \<in> set (g b)" for r b
  proof -
    from that snoc.prems(2) [of b] have "id_col r = b" by simp
    with that(1) snoc.prems(1) show ?thesis by auto
  qed
  then have notin: "a \<notin> set (rev (map id_col (concat (map g as))))"
    by auto
  have "unique (map id_col (concat (map g (as @ [a])))) =
      rev (remdups (replicate (length (g a)) a @ rev (map id_col (concat (map g as)))))"
    by (simp add: unique_def ids)
  also have "\<dots> = rev (a # remdups (rev (map id_col (concat (map g as)))))"
  proof -
    from ga(1) obtain k where "length (g a) = Suc k" by (cases "g a") simp_all
    then show ?thesis using remdups_replicate_append [OF notin, of k] by simp
  qed
  also have "\<dots> = unique (map id_col (concat (map g as))) @ [a]"
    by (simp add: unique_def)
  finally show ?case by (simp add: IH)
qed

lemma assign_cluster_ids_ok:
  assumes "distinct source_ids" and "i + length source_ids \<le> length cl"
  shows "\<exists>out. assign_cluster_ids cl i source_ids t = Inr out
     \<and> map (\<lambda>r. r\<lparr>cluster_id := None\<rparr>) out = map (\<lambda>r. r\<lparr>cluster_id := None\<rparr>) t
     \<and> (\<forall>k < length t.
           (\<forall>j < length source_ids. id_col (t ! k) = source_ids ! j
               \<longrightarrow> cluster_id (out ! k) = Some (cl ! (i + j)))
         \<and> (id_col (t ! k) \<notin> set source_ids \<longrightarrow> out ! k = t ! k))"
  using assms
proof (induction source_ids arbitrary: i t)
  case Nil
  show ?case by simp
next
  case (Cons a source_ids)
  define t' where "t' = map (\<lambda>r. if id_col r = a then r\<lparr>cluster_id := Some (cl ! i)\<rparr> else r) t"
  from Cons.prems have d: "distinct source_ids" "a \<notin> set source_ids"
    and len: "Suc i + length source_ids \<le> length cl" "i < length cl" by simp_all
  from Cons.IH [OF d(1) len(1), of t'] obtain out where
    run: "assign_cluster_ids cl (Suc i) source_ids t' = Inr out"
    and frame: "map (\<lambda>r. r\<lparr>cluster_id := None\<rparr>) out = map (\<lambda>r. r\<lparr>cluster_id := None\<rparr>) t'"
    and lab: "\<And>k. k < length t' \<Longrightarrow>
           (\<forall>j < length source_ids. id_col (t' ! k) = source_ids ! j
               \<longrightarrow> cluster_id (out ! k) = Some (cl ! (Suc i + j)))
         \<and> (id_col (t' ! k) \<notin> set source_ids \<longrightarrow> out ! k = t' ! k)"
    by blast
  have lt: "length t' = length t" by (simp add: t'_def)
  have idt: "id_col (t' ! k) = id_col (t ! k)" if "k < length t" for k
    using that by (simp add: t'_def)
  have "assign_cluster_ids cl i (a # source_ids) t = Inr out"
    using len(2) run by (simp add: t'_def)
  moreover have "map (\<lambda>r. r\<lparr>cluster_id := None\<rparr>) out = map (\<lambda>r. r\<lparr>cluster_id := None\<rparr>) t"
    unfolding frame by (simp add: t'_def)
  moreover have "(\<forall>j < length (a # source_ids). id_col (t ! k) = (a # source_ids) ! j
               \<longrightarrow> cluster_id (out ! k) = Some (cl ! (i + j)))
         \<and> (id_col (t ! k) \<notin> set (a # source_ids) \<longrightarrow> out ! k = t ! k)" if k: "k < length t" for k
  proof (intro conjI allI impI)
    fix j assume j: "j < length (a # source_ids)" and eq: "id_col (t ! k) = (a # source_ids) ! j"
    show "cluster_id (out ! k) = Some (cl ! (i + j))"
    proof (cases j)
      case 0
      with eq have "id_col (t ! k) = a" by simp
      with d(2) k have "id_col (t' ! k) \<notin> set source_ids" by (simp add: idt)
      with lab [of k] k lt have "out ! k = t' ! k" by simp
      then show ?thesis using k \<open>id_col (t ! k) = a\<close> 0 by (simp add: t'_def)
    next
      case (Suc j')
      with j eq have "j' < length source_ids" "id_col (t' ! k) = source_ids ! j'"
        using k by (simp_all add: idt)
      with lab [of k] k lt have "cluster_id (out ! k) = Some (cl ! (Suc i + j'))" by simp
      then show ?thesis using Suc by simp
    qed
  next
    assume "id_col (t ! k) \<notin> set (a # source_ids)"
    then have "id_col (t ! k) \<noteq> a" "id_col (t' ! k) \<notin> set source_ids"
      using k by (simp_all add: idt)
    with lab [of k] k lt show "out ! k = t ! k" by (simp add: t'_def)
  qed
  ultimately show ?case by blast
qed


lemma qualifies_iff:
  "qualifies (real_of_int L / sqrt 2) df a \<longleftrightarrow>
     L \<le> 0 \<or> L * L \<le> 2 * int (length (valid_rows a df)) * int (length (valid_rows a df))"
  by (simp only: qualifies_def min_length_le_iff)

lemma sloped_table_select:
  "ResampleProfiles_select sloped_table 2 =
     ([([0, 1], [Some 2, Some 2], [1, 1])],
      [node 7 0 10 (Some 2), node 7 1 8 (Some 2)],
      [7])"
  unfolding ResampleProfiles_select_eq qualifies_iff
  by (simp add: unique_def valid_rows_def profile_of_def sloped_table_def node_def)

lemma raw_table_select: "ResampleProfiles_select raw_table 2 = ([], [], [])"
  unfolding ResampleProfiles_select_eq qualifies_iff
  by (simp add: unique_def valid_rows_def profile_of_def raw_table_def node_def)

lemma raw_table_select_zero:
  "ResampleProfiles_select raw_table 0 = ([([], [], []), ([], [], [])], [], [7, 8])"
  unfolding ResampleProfiles_select_eq qualifies_iff
  by (simp add: unique_def valid_rows_def profile_of_def raw_table_def node_def)

lemma fill_row_raises: "\<exists>e. fill_row profile_len p = Inl e"
  by (simp add: fill_row_def set_row_def)

lemma fill_loop_returns_only_empty:
  "fill_loop profile_len profiles [] = Inr data \<Longrightarrow> profiles = [] \<and> data = []"
proof (cases profiles)
  case Nil
  then show "fill_loop profile_len profiles [] = Inr data \<Longrightarrow> profiles = [] \<and> data = []"
    by simp
next
  case (Cons p ps)
  obtain e where "fill_row profile_len p = Inl e"
    using fill_row_raises by blast
  with Cons show "fill_loop profile_len profiles [] = Inr data \<Longrightarrow> profiles = [] \<and> data = []"
    by simp
qed

lemma ResampleProfiles_returns_only_empty:
  assumes "ResampleProfiles df profile_len step = Inr (thinned_df, data, final_sources)"
  shows "thinned_df = [] \<and> data = [] \<and> final_sources = []"
proof -
  define q where "q = filter (qualifies (real_of_int profile_len / sqrt 2) df) (unique (map id_col df))"
  have sel: "ResampleProfiles_select df profile_len =
      (map (profile_of df) q, concat (map (\<lambda>a. valid_rows a df) q), q)"
    by (simp add: ResampleProfiles_select_eq q_def)
  from assms have fill: "fill_loop profile_len (map (profile_of df) q) [] = Inr data"
    and res: "thinned_df = concat (map (\<lambda>a. valid_rows a df) q)" "final_sources = q"
    by (auto simp: ResampleProfiles_def sel split: if_splits sum.splits)
  from fill_loop_returns_only_empty [OF fill] have "q = []" "data = []" by simp_all
  with res show ?thesis by simp
qed

lemma ClusterProfiles_returns_only_empty:
  assumes "ClusterProfiles Pearson build_tree fcluster df profile_len step
        min_corr method = Inr out"
  shows "out = []"
proof -
  from assms obtain thinned_df data final_sources cl i
    where res: "ResampleProfiles df profile_len step = Inr (thinned_df, data, final_sources)"
      and run: "assign_cluster_ids cl i (unique (map id_col thinned_df)) thinned_df = Inr out"
    by (auto simp: ClusterProfiles_def Let_def split: sum.splits prod.splits if_splits)
  from ResampleProfiles_returns_only_empty [OF res] have "thinned_df = []" by simp
  with run show ?thesis by (simp add: unique_def)
qed

text \<open>
  C2 fails on the code. With \<open>profile_len = 2\<close> and \<open>step = 1\<close>, source 7 of
  \<open>sloped_table\<close> has two nodes with a slope and passes the qualification filter; the
  resampled vector should be the two slopes nearest to the grid points 0 and 1. The
  second loop instead iterates over the list it has just emptied, and the assignment of
  the empty list to a row of two cells raises.
\<close>

theorem ResampleProfiles_raises_on_qualifying_profile:
  "ResampleProfiles sloped_table 2 1 = Inl (ValueError ''could not broadcast input array'')"
  by (simp add: ResampleProfiles_def arange_def sloped_table_select fill_row_def set_row_def)

text \<open>
  The selection loop of the resampler on its own: a source enters \<open>final_sources\<close>, the
  profile list and the thinned table if and only if it occurs in the table and its
  number of non-missing slope samples is at least \<open>profile_len / sqrt 2\<close>.
\<close>

lemma ResampleProfiles_select_threshold:
  assumes "ResampleProfiles_select df profile_len = (profiles, thinned_df, final_sources)"
  shows "(a \<in> set final_sources \<longleftrightarrow>
            a \<in> set (map id_col df) \<and>
            real_of_int profile_len / sqrt 2 \<le> real (length (valid_rows a df)))
     \<and> distinct final_sources
     \<and> profiles = map (profile_of df) final_sources
     \<and> thinned_df = concat (map (\<lambda>a. valid_rows a df) final_sources)"
proof -
  define q where
    "q = filter (qualifies (real_of_int profile_len / sqrt 2) df) (unique (map id_col df))"
  from assms have "(profiles, thinned_df, final_sources) =
      (map (profile_of df) q, concat (map (\<lambda>a. valid_rows a df) q), q)"
    by (simp only: ResampleProfiles_select_eq q_def)
  then have ps: "profiles = map (profile_of df) final_sources"
    and th: "thinned_df = concat (map (\<lambda>a. valid_rows a df) final_sources)"
    and "final_sources = q"
    by simp_all
  then have fs: "final_sources =
      filter (qualifies (real_of_int profile_len / sqrt 2) df) (unique (map id_col df))"
    by (simp only: q_def)
  have "a \<in> set final_sources \<longleftrightarrow>
      a \<in> set (map id_col df) \<and>
      real_of_int profile_len / sqrt 2 \<le> real (length (valid_rows a df))"
    unfolding fs by (simp add: unique_props qualifies_def)
  moreover have "distinct final_sources"
    unfolding fs by (simp add: unique_props)
  ultimately show ?thesis using ps th by simp
qed

text \<open>
  C3 fails on the code, by the defect of C2. Source 7 of \<open>sloped_table\<close> has two
  non-missing slope samples, at least \<open>2 / sqrt 2\<close>, and the selection loop puts it into
  \<open>final_sources\<close>; but the call then raises in the second loop, so the source reaches
  neither an output array nor a retained set.
\<close>

theorem ResampleProfiles_loses_qualifying_source:
  "7 \<in> set (map id_col sloped_table)
   \<and> real_of_int 2 / sqrt 2 \<le> real (length (valid_rows 7 sloped_table))
   \<and> snd (snd (ResampleProfiles_select sloped_table 2)) = [7]
   \<and> ResampleProfiles sloped_table 2 1 = Inl (ValueError ''could not broadcast input array'')"
proof -
  have "7 \<in> set (map id_col sloped_table)"
    by (simp add: sloped_table_def node_def)
  moreover have "real_of_int 2 / sqrt 2 \<le> real (length (valid_rows 7 sloped_table))"
    using ResampleProfiles_select_threshold [OF sloped_table_select, of 7] by simp
  moreover have "ResampleProfiles sloped_table 2 1 =
      Inl (ValueError ''could not broadcast input array'')"
    by (simp add: ResampleProfiles_def arange_def sloped_table_select fill_row_def set_row_def)
  ultimately show ?thesis by (simp add: sloped_table_select)
qed

text \<open>
  The propagation loop on its own. Let the selection loop retain the sources
  \<open>final_sources\<close> with the thinned table \<open>thinned_df\<close>, for a positive \<open>profile_len\<close>, and
  let \<open>cl\<close> hold one label per retained source. Then the loop returns the thinned table
  with only the \<open>cluster_id\<close> column changed, every row of a retained source carries the
  label of that source, and every row belongs to a retained source.
\<close>

lemma cluster_ids_follow_sources:
  assumes "0 < profile_len"
    and "ResampleProfiles_select df profile_len = (profiles, thinned_df, final_sources)"
    and "length cl = length final_sources"
  shows "\<exists>out. assign_cluster_ids cl 0 (unique (map id_col thinned_df)) thinned_df = Inr out
     \<and> map (\<lambda>r. r\<lparr>cluster_id := None\<rparr>) out = map (\<lambda>r. r\<lparr>cluster_id := None\<rparr>) thinned_df
     \<and> (\<forall>r \<in> set out. id_col r \<in> set final_sources)
     \<and> (\<forall>i < length final_sources. \<forall>r \<in> set out.
           id_col r = final_sources ! i \<longrightarrow> cluster_id r = Some (cl ! i))"
proof -
  define m where "m = real_of_int profile_len / sqrt 2"
  define q where "q = filter (qualifies m df) (unique (map id_col df))"
  from assms(2) have "(profiles, thinned_df, final_sources) =
      (map (profile_of df) q, concat (map (\<lambda>a. valid_rows a df) q), q)"
    by (simp only: ResampleProfiles_select_eq q_def m_def)
  then have th: "thinned_df = concat (map (\<lambda>a. valid_rows a df) final_sources)"
    and "final_sources = q"
    by simp_all
  then have fs: "final_sources = filter (qualifies m df) (unique (map id_col df))"
    by (simp only: q_def)
  have dist: "distinct final_sources" by (simp add: fs unique_props)
  have mpos: "0 < m" using assms(1) by (simp add: m_def)
  have groups: "valid_rows a df \<noteq> [] \<and> (\<forall>r \<in> set (valid_rows a df). id_col r = a)"
    if "a \<in> set final_sources" for a
  proof -
    from that have "m \<le> real (length (valid_rows a df))" by (simp add: fs qualifies_def)
    with mpos have "valid_rows a df \<noteq> []" by auto
    then show ?thesis by (simp add: valid_rows_def)
  qed
  have src: "unique (map id_col thinned_df) = final_sources"
    unfolding th using dist groups by (rule unique_concat_groups)
  have ids: "id_col r \<in> set final_sources" if "r \<in> set thinned_df" for r
    using that groups unfolding th by auto
  from assign_cluster_ids_ok [of final_sources 0 cl thinned_df] dist assms(3)
  obtain out where run: "assign_cluster_ids cl 0 final_sources thinned_df = Inr out"
    and frame: "map (\<lambda>r. r\<lparr>cluster_id := None\<rparr>) out = map (\<lambda>r. r\<lparr>cluster_id := None\<rparr>) thinned_df"
    and lab: "\<And>k j. k < length thinned_df \<Longrightarrow> j < length final_sources \<Longrightarrow>
        id_col (thinned_df ! k) = final_sources ! j \<Longrightarrow> cluster_id (out ! k) = Some (cl ! j)"
    by auto
  from frame have len: "length out = length thinned_df"
    by (rule map_eq_imp_length_eq)
  have same_id: "id_col (out ! k) = id_col (thinned_df ! k)" if "k < length out" for k
  proof -
    from that len have "(out ! k)\<lparr>cluster_id := None\<rparr> = (thinned_df ! k)\<lparr>cluster_id := None\<rparr>"
      using arg_cong [OF frame, of "\<lambda>xs. xs ! k"] by simp
    then have "id_col ((out ! k)\<lparr>cluster_id := None\<rparr>) = id_col ((thinned_df ! k)\<lparr>cluster_id := None\<rparr>)"
      by simp
    then show ?thesis by simp
  qed
  have "id_col r \<in> set final_sources" if "r \<in> set out" for r
  proof -
    from that obtain k where k: "k < length out" "r = out ! k"
      by (auto simp: in_set_conv_nth)
    with same_id [of k] ids [of "thinned_df ! k"] len show ?thesis by simp
  qed
  moreover have "cluster_id r = Some (cl ! i)"
    if "i < length final_sources" "r \<in> set out" "id_col r = final_sources ! i" for i r
  proof -
    from that(2) obtain k where k: "k < length out" "r = out ! k"
      by (auto simp: in_set_conv_nth)
    with that same_id [of k] len lab [of k i] show ?thesis by simp
  qed
  ultimately show ?thesis using run frame src by auto
qed

text \<open>
  For \<open>profile_len = 0\<close> a source without any slope sample is retained but has no row
  in the thinned table, and the loop, which numbers the sources by the thinned table,
  gives the row of source 8 the label of source 7.
\<close>

lemma cluster_ids_shifted_example:
  "ResampleProfiles_select [node 7 0 10 None, node 8 0 5 (Some 1)] 0 =
     ([([], [], []), ([0], [Some 1], [1])], [node 8 0 5 (Some 1)], [7, 8])
   \<and> assign_cluster_ids [1, 2] 0 (unique (map id_col [node 8 0 5 (Some 1)]))
        [node 8 0 5 (Some 1)] =
      Inr [(node 8 0 5 (Some 1))\<lparr>cluster_id := Some 1\<rparr>]"
proof -
  have "ResampleProfiles_select [node 7 0 10 None, node 8 0 5 (Some 1)] 0 =
     ([([], [], []), ([0], [Some 1], [1])], [node 8 0 5 (Some 1)], [7, 8])"
    unfolding ResampleProfiles_select_eq qualifies_iff
    by (simp add: unique_def valid_rows_def profile_of_def node_def)
  then show ?thesis by (simp add: unique_def node_def)
qed

text \<open>
  C7 fails on the code, by the defect of C2. Source 7 of \<open>sloped_table\<close> is retained by
  the selection loop, so its rows should come back carrying its cluster label; but
  \<open>ClusterProfiles\<close> raises in the resampling, before any label is computed, and there
  is no clustered table.
\<close>

theorem ClusterProfiles_raises_with_retained_source:
  "snd (snd (ResampleProfiles_select sloped_table 2)) = [7]
   \<and> ''complete'' \<in> set LINKAGE_METHODS
   \<and> ClusterProfiles no_correlations no_tree one_label sloped_table 2 1 (1 / 2) ''complete'' =
       Inl (ValueError ''could not broadcast input array'')"
  by (simp add: LINKAGE_METHODS_def ClusterProfiles_def ResampleProfiles_def arange_def
      sloped_table_select fill_row_def set_row_def)

text \<open>
  C6, as stated, fails: the correlations go into the arccos transform as they are, and
  an entry slightly above 1 gives NaN.
\<close>

theorem arccos_distances_counterexample:
  "arccos_distances [Some (1 + 1 / 10 ^ 9)] = [None]"
  by (simp add: arccos_distances_def np_arccos_def)

text \<open>
  C6, amended. The distance computation of \<open>ClusterProfiles\<close> applies arccos to every
  correlation value without clipping: a value inside \<open>[-1, 1]\<close> gives a dissimilarity in
  \<open>[0, pi]\<close>, and a value outside \<open>[-1, 1]\<close>, like NaN, gives NaN.
\<close>

theorem arccos_distances_unclipped:
  "length (arccos_distances cc) = length cc
   \<and> (\<forall>k < length cc.
        case cc ! k of
          None \<Rightarrow> arccos_distances cc ! k = None
        | Some x \<Rightarrow>
            if - 1 \<le> x \<and> x \<le> 1
            then arccos_distances cc ! k = Some (arccos x) \<and> 0 \<le> arccos x \<and> arccos x \<le> pi
            else arccos_distances cc ! k = None)"
  by (auto simp: arccos_distances_def np_arccos_def arccos_lbound arccos_ubound
      split: option.splits)

theorem arccos_distances_unclipped_witness:
  "arccos_distances [Some 1, Some (3 / 2), None, Some (- 1)] ! 0 = Some 0
   \<and> arccos_distances [Some 1, Some (3 / 2), None, Some (- 1)] ! 1 = None
   \<and> arccos_distances [Some 1, Some (3 / 2), None, Some (- 1)] ! 2 = None
   \<and> arccos_distances [Some 1, Some (3 / 2), None, Some (- 1)] ! 3 = Some pi
   \<and> (0 :: real) \<le> pi"
proof -
  from arccos_distances_unclipped [of "[Some 1, Some (3 / 2), None, Some (- 1)]"]
  have all: "\<forall>k < 4.
        case [Some 1, Some (3 / 2), None, Some (- 1)] ! k of
          None \<Rightarrow> arccos_distances [Some 1, Some (3 / 2), None, Some (- 1)] ! k = None
        | Some x \<Rightarrow>
            if - 1 \<le> x \<and> x \<le> 1
            then arccos_distances [Some 1, Some (3 / 2), None, Some (- 1)] ! k = Some (arccos x)
              \<and> 0 \<le> arccos x \<and> arccos x \<le> pi
            else arccos_distances [Some 1, Some (3 / 2), None, Some (- 1)] ! k = None"
    by simp
  from all [rule_format, of 0] all [rule_format, of 1] all [rule_format, of 2]
    all [rule_format, of 3]
  show ?thesis by simp
qed

text \<open>
  C8, as stated, fails: the method name is not looked at before the resampling. With
  the unknown name \<open>bogus\<close> and a table in which a profile qualifies, the error that
  comes back is the failure of the resampler, not a rejection of the name.
\<close>

theorem ClusterProfiles_unknown_method_counterexample:
  "''bogus'' \<notin> set LINKAGE_METHODS
   \<and> ClusterProfiles no_correlations no_tree no_labels sloped_table 2 1 (1 / 2) ''bogus'' =
       Inl (ValueError ''could not broadcast input array'')"
  by (simp add: LINKAGE_METHODS_def ClusterProfiles_def ResampleProfiles_def arange_def
      sloped_table_select fill_row_def set_row_def)

text \<open>
  C8, amended. For every unrecognised linkage method name \<open>ClusterProfiles\<close> ends in an
  error and returns no table, but the name is not validated up front: resampling runs
  first and its failure, if any, is the error reported; only when resampling succeeds
  is the name rejected, by the linkage call that follows the correlation and distance
  computation.
\<close>

theorem ClusterProfiles_unknown_method:
  assumes "method \<notin> set LINKAGE_METHODS"
  shows "ClusterProfiles Pearson build_tree fcluster df profile_len step min_corr method =
     (case ResampleProfiles df profile_len step of
        Inl e \<Rightarrow> Inl e
      | Inr resampled \<Rightarrow> Inl (ValueError ''Invalid method''))"
  using assms
  by (simp add: ClusterProfiles_def linkage_def Let_def split: sum.splits prod.splits)

theorem ClusterProfiles_unknown_method_witness:
  "''bogus'' \<notin> set LINKAGE_METHODS
   \<and> ResampleProfiles raw_table 2 1 = Inr ([], [], [])
   \<and> ClusterProfiles no_correlations no_tree no_labels raw_table 2 1 (1 / 2) ''bogus'' =
       Inl (ValueError ''Invalid method'')"
proof -
  have m: "''bogus'' \<notin> set LINKAGE_METHODS"
    by (simp add: LINKAGE_METHODS_def)
  have r: "ResampleProfiles raw_table 2 1 = Inr ([], [], [])"
    by (simp add: ResampleProfiles_def arange_def raw_table_select)
  from ClusterProfiles_unknown_method [OF m, of no_correlations no_tree no_labels raw_table 2 1 "1 / 2"]
  show ?thesis using m r by simp
qed

subsection \<open>The stages and the table they are given\<close>












end
